theory Spec2Isabelle
  imports Main "HOL-Library.Sublist" "HOL-Library.Multiset" "HOL-Library.Product_Lexorder"
begin

section \<open>Python values and list primitives shared by the services\<close>

text \<open>
  The JSON-like Python values that travel through result dictionaries and tool arguments.
  \<open>truthy\<close> is Python's truth test (\<open>if v:\<close>, \<open>not v\<close>, \<open>a and b\<close>).
\<close>

datatype pyval =
    NoneV
  | BoolV bool
  | IntV int
  | StrV string
  | ListV "pyval list"
  | DictV "(string \<times> pyval) list"

fun truthy :: "pyval \<Rightarrow> bool" where
  "truthy NoneV = False"
| "truthy (BoolV b) = b"
| "truthy (IntV i) = (i \<noteq> 0)"
| "truthy (StrV s) = (s \<noteq> [])"
| "truthy (ListV xs) = (xs \<noteq> [])"
| "truthy (DictV kvs) = (kvs \<noteq> [])"

text \<open>
  \<open>xs[:n]\<close>: a negative stop counts from the end and is clipped at the start of the list.
\<close>

definition py_take :: "int \<Rightarrow> 'a list \<Rightarrow> 'a list" where
  "py_take n xs = (if 0 \<le> n then take (nat n) xs else take (length xs - nat (- n)) xs)"

text \<open>
  \<open>xs.sort(key=k, reverse=True)\<close>: CPython reverses the list, sorts it stably in ascending
  order and reverses it again, so elements with equal keys keep their original order.
\<close>

definition py_sort_reverse :: "('a \<Rightarrow> 'k::linorder) \<Rightarrow> 'a list \<Rightarrow> 'a list" where
  "py_sort_reverse k xs = rev (sort_key k (rev xs))"

text \<open>
  \<open>str.lower()\<close> on the characters of the model (bytes): the letters A to Z move to a to z,
  every other character stays.
\<close>

definition lower_char :: "char \<Rightarrow> char" where
  "lower_char c =
     (let n = (of_char c :: nat) in if 65 \<le> n \<and> n \<le> 90 then char_of (n + 32) else c)"

definition lower :: "string \<Rightarrow> string" where
  "lower s = map lower_char s"

text \<open>\<open>q in s\<close> on strings: \<open>q\<close> occurs in \<open>s\<close> as a contiguous run.\<close>

fun py_in :: "string \<Rightarrow> string \<Rightarrow> bool" where
  "py_in q [] = (q = [])"
| "py_in q (c # s) = (prefix q (c # s) \<or> py_in q s)"

text \<open>\<open>d[k] = v\<close> on an insertion-ordered dict, and \<open>d.get(k, default)\<close>.\<close>

fun dict_set :: "'k \<Rightarrow> 'v \<Rightarrow> ('k \<times> 'v) list \<Rightarrow> ('k \<times> 'v) list" where
  "dict_set k v [] = [(k, v)]"
| "dict_set k v ((k', v') # kvs) =
     (if k' = k then (k, v) # kvs else (k', v') # dict_set k v kvs)"

definition dict_get :: "('k \<times> 'v) list \<Rightarrow> 'k \<Rightarrow> 'v \<Rightarrow> 'v" where
  "dict_get d k dflt = (case map_of d k of Some v \<Rightarrow> v | None \<Rightarrow> dflt)"

text \<open>\<open>str(n)\<close> for an integer, and the line feed of the f-strings.\<close>

fun digits :: "nat \<Rightarrow> string" where
  "digits n =
     (if n < 10 then [char_of (48 + n)] else digits (n div 10) @ [char_of (48 + n mod 10)])"

declare digits.simps [simp del]

definition str_int :: "int \<Rightarrow> string" where
  "str_int i = (if i < 0 then CHR ''-'' # digits (nat (- i)) else digits (nat i))"

definition newline :: string where
  "newline = [CHR 0x0A]"

text \<open>The exceptions that cross a function boundary in the modelled code.\<close>

datatype py_error =
    ValueError string
  | IndexError
  | StopCandidateException "int option" string
  | OtherException string

section \<open>Session service (services/session\_service.py)\<close>

text \<open>
  \<open>datetime\<close> values are counted in microseconds since \<open>datetime.min\<close>. A message of the
  conversation history is a dict; its \<open>timestamp\<close> entry holds the clock reading whose ISO
  text the source stores.
\<close>

record session =
  session_id :: string
  created_at :: nat
  last_activity :: nat
  metadata :: "(string \<times> pyval) list"
  conversation_history :: "(string \<times> pyval) list list"
  context' :: "(string \<times> pyval) list"

record session_service =
  sessions :: "(string \<times> session) list"



definition get_session :: "session_service \<Rightarrow> string \<Rightarrow> session option" where
  "get_session svc sid = map_of (sessions svc) sid"

text \<open>
  \<open>add_message(session_id, role, content, metadata=None)\<close>: the clock is read twice, for the
  message and for \<open>last_activity\<close>. \<open>if metadata:\<close> is false for \<open>None\<close> and for \<open>{}\<close>.
\<close>

definition add_message ::
  "nat \<Rightarrow> nat \<Rightarrow> string \<Rightarrow> string \<Rightarrow> string \<Rightarrow> (string \<times> pyval) list option \<Rightarrow> session_service
     \<Rightarrow> bool \<times> session_service" where
  "add_message now1 now2 sid role content' metadata' svc =
     (case map_of (sessions svc) sid of
        None \<Rightarrow> (False, svc)
      | Some s \<Rightarrow>
          (let message = [(''role'', StrV role), (''content'', StrV content'),
                          (''timestamp'', IntV (int now1))];
               message = (case metadata' of
                            None \<Rightarrow> message
                          | Some md \<Rightarrow> if md \<noteq> [] then message @ [(''metadata'', DictV md)]
                                       else message);
               s' = s\<lparr>conversation_history := conversation_history s @ [message],
                      last_activity := now2\<rparr>
           in (True, svc\<lparr>sessions := dict_set sid s' (sessions svc)\<rparr>)))"

section \<open>Memory bank (services/memory\_service.py)\<close>

text \<open>
  \<open>datetime\<close> values are counted in microseconds since \<open>datetime.min\<close>, so
  \<open>datetime.min\<close> is 0. The metadata dictionary is opaque to every operation.
\<close>

definition datetime_min :: nat where
  "datetime_min = 0"

record memory =
  memory_id :: string
  content :: string
  category :: string
  created_at :: nat
  metadata :: "(string \<times> pyval) list"
  access_count :: nat
  last_accessed :: "nat option"

text \<open>
  \<open>MemoryBank._memories\<close> is a dict, which keeps insertion order: an association list with
  distinct keys. A \<open>Memory\<close> object is identified by the key it is stored under, so a
  mutation of the object is an update of the entry in place.
\<close>

record memory_bank =
  memories :: "(string \<times> memory) list"

definition MemoryBank_init :: memory_bank where
  "MemoryBank_init = \<lparr>memories = []\<rparr>"

text \<open>
  \<open>add_memory\<close>: the id is \<open>str(uuid.uuid4())\<close> and the creation time \<open>datetime.now()\<close>,
  both supplied by the environment.
\<close>

definition add_memory ::
  "string \<Rightarrow> nat \<Rightarrow> string \<Rightarrow> string \<Rightarrow> (string \<times> pyval) list option \<Rightarrow> memory_bank
     \<Rightarrow> string \<times> memory_bank" where
  "add_memory uuid4 now content' category' metadata' bank =
     (let memory_id' = uuid4;
          memory' = \<lparr>memory_id = memory_id', content = content', category = category',
                     created_at = now,
                     metadata = (case metadata' of None \<Rightarrow> [] | Some md \<Rightarrow> md),
                     access_count = 0, last_accessed = None\<rparr>
      in (memory_id', bank\<lparr>memories := dict_set memory_id' memory' (memories bank)\<rparr>))"

text \<open>
  \<open>get_memories(category, limit, sort_by)\<close>. \<open>if category:\<close> is false for \<open>None\<close> and for
  the empty string. The access statistics are not touched.
\<close>

definition get_memories :: "memory_bank \<Rightarrow> string option \<Rightarrow> int \<Rightarrow> string \<Rightarrow> memory list" where
  "get_memories bank category' limit sort_by =
     (let ms = map snd (memories bank);
          ms = (case category' of
                  None \<Rightarrow> ms
                | Some c \<Rightarrow> if c \<noteq> [] then filter (\<lambda>m. category m = c) ms else ms);
          ms = (if sort_by = ''access_count'' then py_sort_reverse access_count ms
                else if sort_by = ''last_accessed'' then
                  py_sort_reverse
                    (\<lambda>m. case last_accessed m of Some t \<Rightarrow> t | None \<Rightarrow> datetime_min) ms
                else py_sort_reverse created_at ms)
      in py_take limit ms)"




section \<open>Execution engine (agent/tools.py)\<close>

subsection \<open>The symbol table handed to the generated code\<close>

text \<open>
  The objects a name of the symbol table can be bound to: a module, a builtin function or
  type, a plain value, or a namespace dict (the value of \<open>__builtins__\<close>).
\<close>

datatype pyobj =
    Module string
  | Builtin string
  | Const pyval
  | Namespace "(string \<times> pyobj) list"

definition restricted_globals :: "(string \<times> pyobj) list" where
  "restricted_globals =
     [(''pd'', Module ''pandas''),
      (''json'', Module ''json''),
      (''__builtins__'', Namespace
        [(''range'', Builtin ''range''),
         (''len'', Builtin ''len''),
         (''str'', Builtin ''str''),
         (''int'', Builtin ''int''),
         (''float'', Builtin ''float''),
         (''list'', Builtin ''list''),
         (''dict'', Builtin ''dict''),
         (''sum'', Builtin ''sum''),
         (''min'', Builtin ''min''),
         (''max'', Builtin ''max''),
         (''abs'', Builtin ''abs''),
         (''round'', Builtin ''round''),
         (''sorted'', Builtin ''sorted''),
         (''enumerate'', Builtin ''enumerate''),
         (''zip'', Builtin ''zip''),
         (''print'', Builtin ''print''),
         (''isinstance'', Builtin ''isinstance''),
         (''type'', Builtin ''type''),
         (''True'', Const (BoolV True)),
         (''False'', Const (BoolV False)),
         (''None'', Const NoneV),
         (''__import__'', Builtin ''__import__'')])]"

definition local_vars :: "string \<Rightarrow> (string \<times> pyobj) list" where
  "local_vars filename = [(''filename'', Const (StrV filename))]"






subsection \<open>Running the code in a worker thread\<close>

text \<open>
  What one run of \<open>exec(code, restricted_globals, local_vars)\<close> does, as the harness can
  observe it: the texts it writes to \<open>sys.stdout\<close>, in order, how it ends, and the time it
  takes to get there in milliseconds (without meaning for a run that never ends).
  \<open>Raised_Exception\<close> carries \<open>str(e)\<close> and the text of \<open>traceback.format_exc()\<close>;
  \<open>Raised_BaseException\<close> is an exception outside the \<open>Exception\<close> hierarchy, such as
  SystemExit.
\<close>

datatype ending =
    Completed "(string \<times> pyval) list"
  | Raised_SyntaxError "nat option" string string
  | Raised_Exception string string
  | Raised_BaseException
  | Never_ends

record run =
  printed :: "string list"
  ending :: ending
  duration :: nat

text \<open>
  The standard output of the host process: \<open>sys.stdout\<close> refers to one of the stream
  objects, each holding the text written to it; \<open>StringIO()\<close> allocates a new, empty one.
\<close>

record stdio =
  sys_stdout :: nat
  streams :: "nat \<Rightarrow> string"
  next_stream :: nat

definition StringIO :: "stdio \<Rightarrow> nat \<times> stdio" where
  "StringIO io = (next_stream io,
     io\<lparr>streams := (streams io)(next_stream io := []), next_stream := next_stream io + 1\<rparr>)"

definition write_stdout :: "string \<Rightarrow> stdio \<Rightarrow> stdio" where
  "write_stdout text io =
     io\<lparr>streams := (streams io)(sys_stdout io := streams io (sys_stdout io) @ text)\<rparr>"

text \<open>
  The environment of the engine and of the agent: the file system test, the interpreter,
  and what the agent reads from outside (the head of the CSV file, fresh identifiers, the
  preference lines the auxiliary model call yields).
\<close>

record env =
  path_exists :: "string \<Rightarrow> bool"
  exec_code :: "string \<Rightarrow> (string \<times> pyobj) list \<Rightarrow> (string \<times> pyobj) list \<Rightarrow> run"
  prepare_context :: "string \<Rightarrow> string"
  uuid4 :: "nat \<Rightarrow> string"
  extract_preferences :: "string \<Rightarrow> string \<Rightarrow> string list"

text \<open>
  The nested function \<open>execute_code\<close>, for a run that ends: it redirects \<open>sys.stdout\<close> to
  a fresh StringIO, runs the code, restores \<open>sys.stdout\<close> in the \<open>finally\<close> clause and
  fills \<open>result_container\<close>. \<open>output\<close> is read only after \<open>exec\<close> returns normally. An
  exception outside \<open>Exception\<close> leaves the container as it was. The harness's own
  diagnostics (print, logging, metrics) are not part of the model.
\<close>

definition execute_code ::
  "run \<Rightarrow> string \<Rightarrow> (string \<times> pyval) list \<Rightarrow> stdio \<Rightarrow> (string \<times> pyval) list \<times> stdio" where
  "execute_code r description result_container io =
     (let old_stdout = sys_stdout io;
          (buf, io) = StringIO io;
          io = io\<lparr>sys_stdout := buf\<rparr>;
          io = fold write_stdout (printed r) io
      in case ending r of
           Completed locals \<Rightarrow>
             (let output = streams io (sys_stdout io);
                  io = io\<lparr>sys_stdout := old_stdout\<rparr>;
                  result = dict_get locals ''result'' NoneV;
                  plot_config = dict_get locals ''plot_config'' NoneV;
                  c = dict_set ''success'' (BoolV True) result_container;
                  c = dict_set ''result'' result c;
                  c = dict_set ''plot_config'' plot_config c;
                  c = dict_set ''output'' (StrV output) c;
                  c = dict_set ''description'' (StrV description) c
              in (c, io))
         | Raised_SyntaxError lineno msg tb \<Rightarrow>
             (let io = io\<lparr>sys_stdout := old_stdout\<rparr>;
                  error_msg = ''Syntax Error at line ''
                    @ (case lineno of None \<Rightarrow> ''None'' | Some n \<Rightarrow> digits n)
                    @ '': '' @ msg @ newline @ tb;
                  c = dict_set ''success'' (BoolV False) result_container;
                  c = dict_set ''error'' (StrV error_msg) c
              in (c, io))
         | Raised_Exception e tb \<Rightarrow>
             (let io = io\<lparr>sys_stdout := old_stdout\<rparr>;
                  error_msg = ''Execution error: '' @ e @ newline @ tb;
                  c = dict_set ''success'' (BoolV False) result_container;
                  c = dict_set ''error'' (StrV error_msg) c
              in (c, io))
         | Raised_BaseException \<Rightarrow> (result_container, io\<lparr>sys_stdout := old_stdout\<rparr>)
         | Never_ends \<Rightarrow> (result_container, io))"

text \<open>
  \<open>execute_python_code(code, description, filename)\<close>. The worker thread is joined with a
  timeout of 30 seconds. It is still alive afterwards when the run never ends or needs
  longer; then the call returns a new dict, the container is dropped, and \<open>sys.stdout\<close>
  still refers to the worker's StringIO holding what was written so far. The third
  component is the time the caller waited in \<open>join\<close>.
\<close>

definition timeout_ms :: nat where
  "timeout_ms = 30000"

definition is_alive_after_join :: "run \<Rightarrow> bool" where
  "is_alive_after_join r = (ending r = Never_ends \<or> timeout_ms < duration r)"

definition execute_python_code ::
  "env \<Rightarrow> string \<Rightarrow> string \<Rightarrow> string \<Rightarrow> stdio \<Rightarrow> (string \<times> pyval) list \<times> stdio \<times> nat" where
  "execute_python_code e code description filename io =
     (if \<not> path_exists e filename
      then ([(''success'', BoolV False), (''error'', StrV (''File not found: '' @ filename))],
            io, 0)
      else
        (let result_container =
               [(''success'', BoolV False), (''error'', StrV ''Execution timed out'')];
             r = exec_code e code restricted_globals (local_vars filename)
         in if is_alive_after_join r
            then
              (let (buf, io) = StringIO io;
                   io = io\<lparr>sys_stdout := buf\<rparr>;
                   io = fold write_stdout (printed r) io
               in ([(''success'', BoolV False),
                    (''error'', StrV ''Code execution timed out (30s limit)'')],
                   io, timeout_ms))
            else
              (let (c, io) = execute_code r description result_container io
               in (c, io, duration r))))"

section \<open>Specification predicates and concrete scenarios\<close>



text \<open>A bank with three insights, stored out of creation order, and one preference.\<close>

definition insight_old :: memory where
  "insight_old = \<lparr>memory_id = ''a1'', content = ''Revenue shows a rising trend'',
     category = ''insight'', created_at = 100, metadata = [], access_count = 4,
     last_accessed = Some 150\<rparr>"

definition insight_mid :: memory where
  "insight_mid = \<lparr>memory_id = ''b2'', content = ''Churn indicates a seasonal pattern'',
     category = ''insight'', created_at = 200, metadata = [], access_count = 0,
     last_accessed = None\<rparr>"

definition insight_new :: memory where
  "insight_new = \<lparr>memory_id = ''c3'', content = ''Margins shrink in Q4'',
     category = ''insight'', created_at = 300, metadata = [], access_count = 1,
     last_accessed = Some 310\<rparr>"

definition preference_note :: memory where
  "preference_note = \<lparr>memory_id = ''d4'', content = ''Prefers: bar charts'',
     category = ''user_preference'', created_at = 250, metadata = [], access_count = 0,
     last_accessed = None\<rparr>"

definition insight_bank :: memory_bank where
  "insight_bank = \<lparr>memories = [(''b2'', insight_mid), (''d4'', preference_note),
     (''c3'', insight_new), (''a1'', insight_old)]\<rparr>"











section \<open>Analytics agent (agent/analytics\_agent.py)\<close>

subsection \<open>The model session and what the agent returns\<close>

text \<open>
  A part of the model's turn: a function call with its name and string arguments, a text,
  or anything else. A response holds candidates, each with a finish reason and the parts of
  its content. One call of \<open>send_message\<close> ends in a response, in StopCandidateException
  (with the finish reason when the exception carries one, and its text) or in another
  exception.
\<close>

datatype part =
    Function_call string "(string \<times> string) list"
  | Text string
  | Other_part

record candidate =
  finish_reason :: int
  parts :: "part list"

datatype reply =
    Response "candidate list"
  | Stop_candidate "int option" string
  | Other_error string

text \<open>
  What the agent sends: the system instruction (its fixed prose left out, the dataset
  pointer and the rendered preferences kept), a message in the user's turn, or the result
  of a tool call.
\<close>

datatype payload =
    System_instruction string string
  | User_message string
  | Function_response "(string \<times> pyval) list"

record execution_log =
  tool_calls :: "pyval list"
  errors :: "string list"
  warnings :: "string list"

record agent_response =
  response :: string
  plot_config :: "pyval option"
  code :: "string option"
  execution_log :: "execution_log option"

text \<open>
  The fields of \<open>AnalyticsAgent\<close> that \<open>chat\<close> reads or writes. A chat session object is
  a handle; \<open>_session_chats\<close> maps a session id to a handle or to \<open>None\<close>.
\<close>

record agent =
  current_file_path :: "string option"
  chat_session :: "nat option"
  session_chats :: "(string \<times> nat option) list"
  session_service :: "session_service option"
  memory_service :: "memory_bank option"

text \<open>
  What lies outside the agent object: the log of every \<open>send_message\<close> call with the handle
  it went to, the next handle \<open>start_chat\<close> hands out, the standard output of the host, the
  clock and the count of identifiers drawn. The replies the model is going to give, one
  per \<open>send_message\<close> call, are passed alongside; a call that finds none does not return.
\<close>

record world =
  sent :: "(nat \<times> payload) list"
  next_chat :: nat
  host_io :: stdio
  clock :: nat
  uuid_count :: nat

datatype 'a outcome = Returned 'a | Raised py_error | No_return


definition load_dataset :: "env \<Rightarrow> string \<Rightarrow> agent \<Rightarrow> agent outcome" where
  "load_dataset e file_path a =
     (if \<not> path_exists e file_path
      then Raised (OtherException (''File not found: '' @ file_path))
      else Returned (a\<lparr>current_file_path := Some file_path, chat_session := None\<rparr>))"

definition error_response :: "string \<Rightarrow> string list \<Rightarrow> string list \<Rightarrow> agent_response" where
  "error_response text errs warns =
     \<lparr>response = text, plot_config = None, code = None,
      execution_log = Some \<lparr>tool_calls = [], errors = errs, warnings = warns\<rparr>\<rparr>"

subsection \<open>Priming\<close>

text \<open>\<open>sep.join(xs)\<close>.\<close>

fun join :: "string \<Rightarrow> string list \<Rightarrow> string" where
  "join sep [] = []"
| "join sep [x] = x"
| "join sep (x # y # ys) = x @ sep @ join sep (y # ys)"

definition get_user_preferences :: "agent \<Rightarrow> string" where
  "get_user_preferences a =
     (case memory_service a of
        None \<Rightarrow> []
      | Some bank \<Rightarrow>
          (let preferences = get_memories bank (Some ''user_preference'') 20 ''created_at''
           in if preferences = [] then []
              else join newline
                     ([newline @ ''=== USER PREFERENCES (from memory) ===''] @
                      map (\<lambda>pref. ''- '' @ content pref) preferences @
                      [''=== END USER PREFERENCES ==='' @ newline])))"

text \<open>\<open>if session_id and self.session_service:\<close>\<close>

definition session_aware :: "agent \<Rightarrow> string option \<Rightarrow> bool" where
  "session_aware a session_id' =
     ((case session_id' of None \<Rightarrow> False | Some s \<Rightarrow> s \<noteq> []) \<and> session_service a \<noteq> None)"

text \<open>
  The head of the session-aware branch: the user message goes to the session history and
  the session id gets an entry in \<open>_session_chats\<close> if it has none.
\<close>

definition enter_session :: "string \<Rightarrow> string \<Rightarrow> agent \<Rightarrow> world \<Rightarrow> agent \<times> world" where
  "enter_session sid user_message a w =
     (case session_service a of
        None \<Rightarrow> (a, w)
      | Some svc \<Rightarrow>
          (let (ok, svc) = add_message (clock w) (clock w + 1) sid ''user'' user_message None svc;
               w = w\<lparr>clock := clock w + 2\<rparr>;
               a = a\<lparr>session_service := Some svc\<rparr>;
               a = (if map_of (session_chats a) sid = None
                    then a\<lparr>session_chats := dict_set sid None (session_chats a)\<rparr> else a)
           in (a, w)))"

definition select_session :: "string \<Rightarrow> string option \<Rightarrow> agent \<Rightarrow> world \<Rightarrow> agent \<times> world" where
  "select_session user_message session_id' a w =
     (if session_aware a session_id'
      then (case session_id' of
              None \<Rightarrow> (a, w)
            | Some sid \<Rightarrow> enter_session sid user_message a w)
      else (a, w))"

text \<open>The chat session the call works with: the session's own, or the default one.\<close>

definition current_chat :: "agent \<Rightarrow> string option \<Rightarrow> nat option" where
  "current_chat a session_id' =
     (if session_aware a session_id'
      then (case session_id' of
              None \<Rightarrow> None
            | Some sid \<Rightarrow> (case map_of (session_chats a) sid of Some h \<Rightarrow> h | None \<Rightarrow> None))
      else chat_session a)"

text \<open>
  The branch \<open>if chat_session is None\<close>: a chat is started and stored, under the session id
  or as the default session, before the system instruction is sent. Only
  StopCandidateException is caught around the send.
\<close>

definition prime_session ::
  "env \<Rightarrow> string \<Rightarrow> string option \<Rightarrow> reply list \<Rightarrow> agent \<Rightarrow> world
     \<Rightarrow> (nat + agent_response) outcome \<times> reply list \<times> agent \<times> world" where
  "prime_session e path session_id' rs a w =
     (let context = prepare_context e path;
          user_preferences = get_user_preferences a;
          h = next_chat w;
          w = w\<lparr>next_chat := h + 1\<rparr>;
          a = (if session_aware a session_id'
               then (case session_id' of
                       None \<Rightarrow> a
                     | Some sid \<Rightarrow> a\<lparr>session_chats := dict_set sid (Some h) (session_chats a)\<rparr>)
               else a\<lparr>chat_session := Some h\<rparr>);
          w = w\<lparr>sent := sent w @ [(h, System_instruction context user_preferences)]\<rparr>
      in case rs of
           [] \<Rightarrow> (No_return, [], a, w)
         | r # rs \<Rightarrow>
             (case r of
                Response resp \<Rightarrow> (Returned (Inl h), rs, a, w)
              | Stop_candidate fr txt \<Rightarrow>
                  (Returned (Inr (error_response
                     ''I encountered an error initializing the analysis session. Please try uploading your data again.''
                     [''RECITATION error during system initialization: '' @ txt] [])), rs, a, w)
              | Other_error txt \<Rightarrow> (Raised (OtherException txt), rs, a, w)))"

subsection \<open>Sending the user message, with retries\<close>

definition max_retries :: nat where
  "max_retries = 2"

definition stop_error_type :: "int option \<Rightarrow> string" where
  "stop_error_type fr =
     (case fr of
        None \<Rightarrow> ''Unknown error (finish_reason: unknown)''
      | Some n \<Rightarrow>
          if n = 2 then ''Response exceeded token limit''
          else if n = 3 then ''Content filtered by safety settings''
          else if n = 4 \<or> n = 10 then ''Potential copyright content detected''
          else ''Unknown error (finish_reason: '' @ str_int n @ '')'')"

text \<open>
  The loop \<open>while retry_count <= max_retries\<close>, started at 0; the count grows only while it
  is below \<open>max_retries\<close>, so the guard holds at every entry. Each pass sends once: the user
  message, or from the first retry on the message behind a neutral prefix. The result is
  the response, or the AgentResponse the loop returns from \<open>chat\<close> with; \<open>None\<close> when the
  model gives no reply.
\<close>

fun retry_loop ::
  "nat \<Rightarrow> string \<Rightarrow> nat \<Rightarrow> reply list \<Rightarrow> world
     \<Rightarrow> (candidate list + agent_response) option \<times> reply list \<times> world" where
  "retry_loop h user_message retry_count [] w =
     (None, [],
      w\<lparr>sent := sent w @
         [(h, User_message (if 0 < retry_count
                            then ''Analyze this dataset and provide insights: '' @ user_message
                            else user_message))]\<rparr>)"
| "retry_loop h user_message retry_count (r # rs) w =
     (let w = w\<lparr>sent := sent w @
                 [(h, User_message (if 0 < retry_count
                                    then ''Analyze this dataset and provide insights: '' @ user_message
                                    else user_message))]\<rparr>
      in case r of
           Response resp \<Rightarrow> (Some (Inl resp), rs, w)
         | Stop_candidate fr txt \<Rightarrow>
             if max_retries \<le> retry_count
             then (Some (Inr (error_response
                     ''I'm having trouble generating a response. This might be due to content restrictions. Please try rephrasing your question or asking about specific aspects of the data.''
                     [''StopCandidateException after '' @ digits (max_retries + 1) @ '' attempts: ''
                        @ stop_error_type fr]
                     [''Consider rephrasing the question''])), rs, w)
             else retry_loop h user_message (retry_count + 1) rs w
         | Other_error txt \<Rightarrow>
             (Some (Inr (error_response ''I encountered an unexpected error. Please try again.''
                     [''Unexpected error: '' @ txt] [])), rs, w))"

subsection \<open>The tool loop\<close>

record turn =
  final_plot_config :: "pyval option"
  executed_code :: "string option"
  log :: execution_log

definition empty_turn :: turn where
  "empty_turn = \<lparr>final_plot_config = None, executed_code = None,
     log = \<lparr>tool_calls = [], errors = [], warnings = []\<rparr>\<rparr>"

text \<open>The bookkeeping of one tool call, between the execution and the send.\<close>

definition track_execution :: "string \<Rightarrow> string \<Rightarrow> (string \<times> pyval) list \<Rightarrow> turn \<Rightarrow> turn" where
  "track_execution code' description exec_result t =
     (let success = dict_get exec_result ''success'' NoneV;
          entry = DictV
            [(''tool'', StrV ''execute_python_code''),
             (''description'', StrV description),
             (''success'', success),
             (''has_result'', BoolV (dict_get exec_result ''result'' NoneV \<noteq> NoneV)),
             (''has_plot_config'', BoolV (dict_get exec_result ''plot_config'' NoneV \<noteq> NoneV)),
             (''error'', if \<not> truthy success then dict_get exec_result ''error'' NoneV else NoneV)];
          l = log t;
          l = l\<lparr>tool_calls := tool_calls l @ [entry]\<rparr>;
          l = (if truthy success \<and> \<not> truthy (dict_get exec_result ''plot_config'' NoneV)
               then l\<lparr>warnings := warnings l @
                      [''Code executed successfully but no plot_config was generated'']\<rparr>
               else l)
      in t\<lparr>executed_code := Some code', log := l\<rparr>)"

definition keep_plot :: "(string \<times> pyval) list \<Rightarrow> turn \<Rightarrow> turn" where
  "keep_plot exec_result t =
     (if truthy (dict_get exec_result ''success'' NoneV)
         \<and> truthy (dict_get exec_result ''plot_config'' NoneV)
      then t\<lparr>final_plot_config := Some (dict_get exec_result ''plot_config'' NoneV)\<rparr>
      else t)"

text \<open>
  The loop \<open>while response.candidates[0].content.parts\<close>. An empty candidate list raises
  IndexError. A call of \<open>execute_python_code\<close> is executed and its result sent back, outside
  any \<open>try\<close>, so what the send raises leaves \<open>chat\<close>. A function call of another name changes
  nothing and the loop spins. A text ends the loop. The values are JSON-like already, so
  \<open>_sanitize_for_json\<close> changes nothing.
\<close>

fun tool_loop ::
  "env \<Rightarrow> string \<Rightarrow> nat \<Rightarrow> candidate list \<Rightarrow> turn \<Rightarrow> reply list \<Rightarrow> world
     \<Rightarrow> (string \<times> turn) outcome \<times> reply list \<times> world" where
  "tool_loop e path h [] t rs w = (Raised IndexError, rs, w)"
| "tool_loop e path h (c # cs) t rs w =
     (case parts c of
        [] \<Rightarrow> (Returned ([], t), rs, w)
      | Text txt # ps \<Rightarrow> (Returned (txt, t), rs, w)
      | Other_part # ps \<Rightarrow> (Returned ([], t), rs, w)
      | Function_call name args # ps \<Rightarrow>
          if name \<noteq> ''execute_python_code'' then (No_return, rs, w)
          else
            (let code' = dict_get args ''code'' [];
                 description = dict_get args ''description'' [];
                 filename = dict_get args ''filename'' path;
                 result = execute_python_code e code' description filename (host_io w);
                 exec_result = fst result;
                 w = w\<lparr>host_io := fst (snd result)\<rparr>;
                 t = track_execution code' description exec_result t;
                 w = w\<lparr>sent := sent w @ [(h, Function_response exec_result)]\<rparr>
             in case rs of
                  [] \<Rightarrow> (No_return, [], w)
                | Response resp # rs' \<Rightarrow> tool_loop e path h resp (keep_plot exec_result t) rs' w
                | Stop_candidate fr txt # rs' \<Rightarrow> (Raised (StopCandidateException fr txt), rs', w)
                | Other_error txt # rs' \<Rightarrow> (Raised (OtherException txt), rs', w)))"

subsection \<open>After the loop\<close>

definition insight_keywords :: "string list" where
  "insight_keywords = [''insight'', ''trend'', ''shows'', ''indicates'', ''analysis'']"

text \<open>
  The session-aware tail: the assistant's message goes to the history, and a long enough
  answer containing an insight keyword is stored as an \<open>insight\<close> memory.
\<close>

definition record_answer ::
  "env \<Rightarrow> string \<Rightarrow> string \<Rightarrow> string \<Rightarrow> string \<Rightarrow> turn \<Rightarrow> agent \<Rightarrow> world \<Rightarrow> agent \<times> world" where
  "record_answer e sid path user_message final_response t a w =
     (let a = (case session_service a of
                 None \<Rightarrow> a
               | Some svc \<Rightarrow>
                   a\<lparr>session_service := Some (snd (add_message (clock w) (clock w + 1) sid
                        ''assistant''
                        (if final_response \<noteq> [] then final_response else ''Analysis complete.'')
                        (Some [(''has_plot'', BoolV (final_plot_config t \<noteq> None)),
                               (''has_code'', BoolV (executed_code t \<noteq> None))]) svc))\<rparr>);
          w = w\<lparr>clock := clock w + 2\<rparr>
      in case memory_service a of
           None \<Rightarrow> (a, w)
         | Some bank \<Rightarrow>
             if final_response \<noteq> [] \<and> 50 < length final_response
                \<and> (\<exists>keyword \<in> set insight_keywords. py_in keyword (lower final_response))
             then (a\<lparr>memory_service := Some (snd (add_memory (uuid4 e (uuid_count w)) (clock w)
                       (take 500 final_response) ''insight''
                       (Some [(''session_id'', StrV sid), (''dataset'', StrV path),
                              (''user_question'', StrV (take 200 user_message))]) bank))\<rparr>,
                   w\<lparr>clock := clock w + 1, uuid_count := uuid_count w + 1\<rparr>)
             else (a, w))"

text \<open>
  \<open>_extract_user_preferences\<close>: the auxiliary model call and the splitting of its text are
  the environment's \<open>extract_preferences\<close> (no lines when the call fails or finds nothing);
  every line longer than five characters becomes a \<open>user_preference\<close> memory. The method
  catches every exception.
\<close>

fun save_preferences ::
  "env \<Rightarrow> string \<Rightarrow> string list \<Rightarrow> memory_bank \<Rightarrow> world \<Rightarrow> memory_bank \<times> world" where
  "save_preferences e user_message [] bank w = (bank, w)"
| "save_preferences e user_message (pref # prefs) bank w =
     (if pref \<noteq> [] \<and> 5 < length pref
      then save_preferences e user_message prefs
             (snd (add_memory (uuid4 e (uuid_count w)) (clock w) pref ''user_preference''
                (Some [(''source'', StrV ''auto_extracted''),
                       (''user_message'', StrV (take 200 user_message))]) bank))
             (w\<lparr>clock := clock w + 1, uuid_count := uuid_count w + 1\<rparr>)
      else save_preferences e user_message prefs bank w)"

definition finish_turn ::
  "env \<Rightarrow> string \<Rightarrow> string option \<Rightarrow> string \<Rightarrow> string \<Rightarrow> turn \<Rightarrow> agent \<Rightarrow> world
     \<Rightarrow> agent_response \<times> agent \<times> world" where
  "finish_turn e user_message session_id' path final_response t a w =
     (let agent_response =
            \<lparr>response = (if final_response \<noteq> [] then final_response else ''Analysis complete.''),
             plot_config = final_plot_config t, code = executed_code t,
             execution_log = Some (log t)\<rparr>;
          (a, w) = (if session_aware a session_id'
                    then (case session_id' of
                            None \<Rightarrow> (a, w)
                          | Some sid \<Rightarrow> record_answer e sid path user_message final_response t a w)
                    else (a, w))
      in case memory_service a of
           None \<Rightarrow> (agent_response, a, w)
         | Some bank \<Rightarrow>
             (let (bank, w) = save_preferences e user_message
                    (extract_preferences e user_message final_response) bank w
              in (agent_response, a\<lparr>memory_service := Some bank\<rparr>, w)))"

subsection \<open>\<open>chat\<close>\<close>

text \<open>
  \<open>chat(user_message, session_id=None)\<close>: what the call returns or raises (or that it does
  not return), the replies left, and the agent and the world as the call leaves them.
\<close>

text \<open>
  The part of \<open>chat\<close> behind the priming: the user message with its retries, the tool
  loop, and the assembly of the answer. The check of the finish reason between the retries
  and the tool loop only logs a warning and is left out.
\<close>

definition run_turn ::
  "env \<Rightarrow> string \<Rightarrow> string option \<Rightarrow> string \<Rightarrow> nat \<Rightarrow> reply list \<Rightarrow> agent \<Rightarrow> world
     \<Rightarrow> agent_response outcome \<times> reply list \<times> agent \<times> world" where
  "run_turn e user_message session_id' path h rs a w =
     (case retry_loop h user_message 0 rs w of
        (None, rs, w) \<Rightarrow> (No_return, rs, a, w)
      | (Some (Inr resp), rs, w) \<Rightarrow> (Returned resp, rs, a, w)
      | (Some (Inl resp), rs, w) \<Rightarrow>
          (case tool_loop e path h resp empty_turn rs w of
             (No_return, rs, w) \<Rightarrow> (No_return, rs, a, w)
           | (Raised x, rs, w) \<Rightarrow> (Raised x, rs, a, w)
           | (Returned (final_response, t), rs, w) \<Rightarrow>
               (case finish_turn e user_message session_id' path final_response t a w of
                  (agent_response, a, w) \<Rightarrow> (Returned agent_response, rs, a, w))))"

definition chat ::
  "env \<Rightarrow> string \<Rightarrow> string option \<Rightarrow> reply list \<Rightarrow> agent \<Rightarrow> world
     \<Rightarrow> agent_response outcome \<times> reply list \<times> agent \<times> world" where
  "chat e user_message session_id' rs a w =
     (case current_file_path a of
        None \<Rightarrow>
          (Returned \<lparr>response = ''Please upload a dataset first to start analyzing data.'',
                     plot_config = None, code = None, execution_log = None\<rparr>, rs, a, w)
      | Some path \<Rightarrow>
          (let (a, w) = select_session user_message session_id' a w
           in case current_chat a session_id' of
                Some h \<Rightarrow> run_turn e user_message session_id' path h rs a w
              | None \<Rightarrow>
                  (case prime_session e path session_id' rs a w of
                     (No_return, rs, a, w) \<Rightarrow> (No_return, rs, a, w)
                   | (Raised x, rs, a, w) \<Rightarrow> (Raised x, rs, a, w)
                   | (Returned (Inr resp), rs, a, w) \<Rightarrow> (Returned resp, rs, a, w)
                   | (Returned (Inl h), rs, a, w) \<Rightarrow>
                       run_turn e user_message session_id' path h rs a w)))"

text \<open>The system instructions among the sends, and two calls of \<open>chat\<close> in a row.\<close>

fun is_priming :: "nat \<times> payload \<Rightarrow> bool" where
  "is_priming (h, System_instruction c p) = True"
| "is_priming (h, User_message m) = False"
| "is_priming (h, Function_response r) = False"










section \<open>Shared lemmas\<close>


lemma map_of_dict_set: "map_of (dict_set k v kvs) k' = (if k' = k then Some v else map_of kvs k')"
  by (induction kvs) auto



lemma py_sort_reverse_unique:
  assumes "mset xs = mset ys" and "inj_on k (set xs)" and "sorted (rev (map k ys))"
  shows "py_sort_reverse k xs = ys"
proof -
  have "sort_key k (rev xs) = rev ys"
    using assms by (intro sort_key_inj_key_eq) (simp_all add: rev_map)
  then show ?thesis by (simp add: py_sort_reverse_def)
qed












section \<open>Memory bank: listing and search\<close>

text \<open>
  C8. On a store whose memories of category \<open>insight\<close> are exactly three, created at
  \<open>t1 < t2 < t3\<close> (in whatever order they were inserted, other categories may be present),
  \<open>get_memories(category="insight", limit=2)\<close> with the default \<open>sort_by\<close> returns the one
  created at \<open>t3\<close> followed by the one created at \<open>t2\<close>.
\<close>

theorem get_memories_newest_two:
  assumes three: "mset (filter (\<lambda>m. category m = ''insight'') (map snd (memories bank))) =
      {#m1, m2, m3#}"
    and "created_at m1 < created_at m2" and "created_at m2 < created_at m3"
  shows "get_memories bank (Some ''insight'') 2 ''created_at'' = [m3, m2]"
proof -
  let ?ms = "filter (\<lambda>m. category m = ''insight'') (map snd (memories bank))"
  have s: "set ?ms = {m1, m2, m3}"
    using three by (metis set_mset_mset set_mset_add_mset_insert set_mset_empty)
  have "py_sort_reverse created_at ?ms = [m3, m2, m1]"
  proof (rule py_sort_reverse_unique)
    show "mset ?ms = mset [m3, m2, m1]" using three by (simp add: add_mset_commute)
    show "inj_on created_at (set ?ms)" unfolding s using assms(2,3) by (auto simp: inj_on_def)
    show "sorted (rev (map created_at [m3, m2, m1]))" using assms(2,3) by simp
  qed
  then show ?thesis
    by (simp add: get_memories_def py_take_def Let_def)
qed

theorem get_memories_newest_two_witness:
  "mset (filter (\<lambda>m. category m = ''insight'') (map snd (memories insight_bank))) =
     {#insight_old, insight_mid, insight_new#}
   \<and> created_at insight_old < created_at insight_mid
   \<and> created_at insight_mid < created_at insight_new
   \<and> get_memories insight_bank (Some ''insight'') 2 ''created_at'' = [insight_new, insight_mid]"
proof -
  have h1: "mset (filter (\<lambda>m. category m = ''insight'') (map snd (memories insight_bank))) =
     {#insight_old, insight_mid, insight_new#}"
    by (simp add: insight_bank_def insight_old_def insight_mid_def insight_new_def
        preference_note_def)
  have h2: "created_at insight_old < created_at insight_mid"
    by (simp add: insight_old_def insight_mid_def)
  have h3: "created_at insight_mid < created_at insight_new"
    by (simp add: insight_new_def insight_mid_def)
  show ?thesis
    by (rule conjI h1 h2 h3 get_memories_newest_two [OF h1 h2 h3])+
qed






section \<open>Session service: creating a session\<close>



section \<open>Execution engine: symbol table, capture, faults and timeout\<close>












section \<open>Analytics agent: priming, retries and what \<open>chat\<close> raises\<close>

lemma enter_session_fields:
  "current_file_path (fst (enter_session sid m a w)) = current_file_path a"
  "memory_service (fst (enter_session sid m a w)) = memory_service a"
  "chat_session (fst (enter_session sid m a w)) = chat_session a"
  "(session_service (fst (enter_session sid m a w)) = None) = (session_service a = None)"
  "(\<exists>y. session_service (fst (enter_session sid m a w)) = Some y) = (\<exists>y. session_service a = Some y)"
  "sent (snd (enter_session sid m a w)) = sent w"
  "next_chat (snd (enter_session sid m a w)) = next_chat w"
  by (auto simp: enter_session_def Let_def split: option.splits prod.splits)


lemma select_session_fields:
  "current_file_path (fst (select_session m s a w)) = current_file_path a"
  "memory_service (fst (select_session m s a w)) = memory_service a"
  "sent (snd (select_session m s a w)) = sent w"
  "next_chat (snd (select_session m s a w)) = next_chat w"
  "session_aware (fst (select_session m s a w)) s' = session_aware a s'"
  by (auto simp: select_session_def session_aware_def enter_session_fields split: option.splits)




lemma retry_loop_sent:
  "filter is_priming (sent (snd (snd (retry_loop h m n rs w)))) = filter is_priming (sent w)"
proof (induction rs arbitrary: n w)
  case Nil
  show ?case by simp
next
  case (Cons r rs)
  show ?case by (cases r) (simp_all add: Let_def Cons.IH)
qed

lemma tool_loop_sent:
  "filter is_priming (sent (snd (snd (tool_loop e path h resp t rs w)))) = filter is_priming (sent w)"
proof (induction rs arbitrary: resp t w)
  case Nil
  show ?case
    by (cases resp) (auto simp: Let_def split: list.splits part.splits)
next
  case (Cons r rs)
  show ?case
    by (cases resp) (auto simp: Let_def Cons.IH split: list.splits part.splits reply.splits)
qed


lemma record_answer_fields:
  "current_file_path (fst (record_answer e sid path m fr t a w)) = current_file_path a"
  "chat_session (fst (record_answer e sid path m fr t a w)) = chat_session a"
  "session_chats (fst (record_answer e sid path m fr t a w)) = session_chats a"
  "(session_service (fst (record_answer e sid path m fr t a w)) = None) = (session_service a = None)"
  "sent (snd (record_answer e sid path m fr t a w)) = sent w"
  by (auto simp: record_answer_def Let_def split: option.splits)

lemma save_preferences_sent: "sent (snd (save_preferences e m prefs bank w)) = sent w"
  by (induction prefs arbitrary: bank w) auto

lemma finish_turn_fields:
  "current_file_path (fst (snd (finish_turn e m s path fr t a w))) = current_file_path a"
  "chat_session (fst (snd (finish_turn e m s path fr t a w))) = chat_session a"
  "session_chats (fst (snd (finish_turn e m s path fr t a w))) = session_chats a"
  "(session_service (fst (snd (finish_turn e m s path fr t a w))) = None) = (session_service a = None)"
  "sent (snd (snd (finish_turn e m s path fr t a w))) = sent w"
  by (auto simp: finish_turn_def Let_def case_prod_unfold record_answer_fields
      save_preferences_sent split: option.splits)

lemma retry_loop_sent_eq:
  "retry_loop h m n rs w = (r, rs', w') \<Longrightarrow> filter is_priming (sent w') = filter is_priming (sent w)"
  using retry_loop_sent [of h m n rs w] by simp

lemma tool_loop_sent_eq:
  "tool_loop e path h resp t rs w = (r, rs', w') \<Longrightarrow>
     filter is_priming (sent w') = filter is_priming (sent w)"
  using tool_loop_sent [of e path h resp t rs w] by simp

lemma finish_turn_eq:
  assumes "finish_turn e m s path fr t a w = (r, a', w')"
  shows "sent w' = sent w" and "current_file_path a' = current_file_path a"
    and "chat_session a' = chat_session a" and "session_chats a' = session_chats a"
    and "(session_service a' = None) = (session_service a = None)"
  using finish_turn_fields [of e m s path fr t a w] assms by simp_all

lemma current_chat_cong:
  assumes "chat_session a' = chat_session a" and "session_chats a' = session_chats a"
    and "(session_service a' = None) = (session_service a = None)"
  shows "current_chat a' s = current_chat a s"
  using assms by (auto simp: current_chat_def session_aware_def split: option.splits)

lemma finish_turn_current:
  "current_chat (fst (snd (finish_turn e m s path fr t a w))) s' = current_chat a s'"
  by (rule current_chat_cong) (simp_all add: finish_turn_fields)


lemma run_turn_agent:
  "current_chat (fst (snd (snd (run_turn e m s path h rs a w)))) s' = current_chat a s'"
  "current_file_path (fst (snd (snd (run_turn e m s path h rs a w)))) = current_file_path a"
  by (simp_all add: run_turn_def case_prod_unfold finish_turn_current finish_turn_fields
      split: option.splits sum.splits outcome.splits)

lemma prime_session_agent:
  "current_chat (fst (snd (snd (prime_session e path s rs a w)))) s = Some (next_chat w)"
  "current_file_path (fst (snd (snd (prime_session e path s rs a w)))) = current_file_path a"
  by (auto simp: prime_session_def Let_def current_chat_def session_aware_def map_of_dict_set
      split: list.splits reply.splits option.splits)







lemma chat_file:
  "current_file_path (fst (snd (snd (chat e m s rs a w)))) = current_file_path a"
  by (auto simp: chat_def case_prod_unfold Let_def run_turn_agent prime_session_agent
      select_session_fields split: option.splits outcome.splits sum.splits)














end
